theory Spec2Isabelle
  imports Complex_Main "HOL-Library.Word"
begin

unbundle bit_operations_syntax

section \<open>Common data\<close>

text \<open>
  Coordinates are Python floats in the source. They are modelled as exact reals: every
  arithmetic expression of the source is kept, rounding is not modelled.

  A vertex is the tuple \<open>(x, y, z)\<close> of the source, with \<open>z\<close> optional.
\<close>

type_synonym vertex = "real \<times> real \<times> real option"

type_synonym bbox = "real \<times> real \<times> real \<times> real"

text \<open>
  The source raises \<open>ValueError\<close> with a message everywhere; the first four
  constructors name the failure the message describes. The last three are errors raised
  inside NumPy: a negative number of indices to draw, an index outside an array, and a
  Python integer that does not fit into a 64-bit NumPy integer.
\<close>

datatype error =
    InvalidParameter string
  | UnalignedData bbox bbox
  | EmptyCloud
  | DimensionMismatch string
  | NegativeDimensions
  | IndexError
  | OverflowError

section \<open>densify.py\<close>

definition hypot :: "real \<Rightarrow> real \<Rightarrow> real" where
  "hypot dx dy = sqrt (dx * dx + dy * dy)"

text \<open>\<open>None if z0 is None or z1 is None else float(z0 + (z1 - z0) * t)\<close>\<close>

fun interp_z :: "real option \<Rightarrow> real option \<Rightarrow> real \<Rightarrow> real option" where
  "interp_z (Some z0) (Some z1) t = Some (z0 + (z1 - z0) * t)"
| "interp_z _ _ t = None"

text \<open>The body of the inner loop \<open>for j in range(n)\<close>: one interpolated point is appended.\<close>

definition interp_point :: "vertex \<Rightarrow> vertex \<Rightarrow> int \<Rightarrow> nat \<Rightarrow> vertex" where
  "interp_point v0 v1 n j =
     (case v0 of (x0, y0, z0) \<Rightarrow> case v1 of (x1, y1, z1) \<Rightarrow>
        let dx = x1 - x0; dy = y1 - y0; t = real j / real_of_int n
        in (x0 + dx * t, y0 + dy * t, interp_z z0 z1 t))"

text \<open>The body of the outer loop for one pair of consecutive vertices.\<close>

definition segment_step :: "real \<Rightarrow> vertex list \<Rightarrow> vertex \<Rightarrow> vertex \<Rightarrow> vertex list" where
  "segment_step step_m out v0 v1 =
     (case v0 of (x0, y0, z0) \<Rightarrow> case v1 of (x1, y1, z1) \<Rightarrow>
        let dx = x1 - x0; dy = y1 - y0; seg_len = hypot dx dy
        in if seg_len = 0 then out
           else let n = max 1 \<lceil>seg_len / step_m\<rceil>
                in foldl (\<lambda>acc j. acc @ [interp_point v0 v1 n j]) out [0 ..< nat n])"

text \<open>
  The list \<open>out\<close> after the outer loop \<open>for i in range(len(vertices) - 1)\<close> and the
  final \<open>out.append(vertices[-1])\<close>.
\<close>

definition emitted :: "vertex list \<Rightarrow> real \<Rightarrow> vertex list" where
  "emitted vertices step_m =
     foldl (\<lambda>out i. segment_step step_m out (vertices ! i) (vertices ! (i + 1)))
       [] [0 ..< length vertices - 1]
     @ [last vertices]"

definition dedup_eps :: real where
  "dedup_eps = 1 / 10 ^ 9"

text \<open>The deduplication loop: a point is kept unless both coordinates are within
  \<open>1e-9\<close> of the last kept point. The literal \<open>1e-9\<close> is taken as the real
  \<open>1 / 10 ^ 9\<close>.\<close>

definition dedup_step :: "vertex list \<Rightarrow> vertex \<Rightarrow> vertex list" where
  "dedup_step dedup xy =
     (if dedup = [] \<or> (\<bar>fst (last dedup) - fst xy\<bar> > dedup_eps
                      \<or> \<bar>fst (snd (last dedup)) - fst (snd xy)\<bar> > dedup_eps)
      then dedup @ [xy] else dedup)"

definition dedup_points :: "vertex list \<Rightarrow> vertex list" where
  "dedup_points out = foldl dedup_step [] out"

definition densify_polyline :: "vertex list \<Rightarrow> real \<Rightarrow> error + vertex list" where
  "densify_polyline vertices step_m =
     (if length vertices < 2 then Inr vertices
      else if step_m \<le> 0 then Inl (InvalidParameter ''step_m must be > 0'')
      else Inr (dedup_points (emitted vertices step_m)))"

text \<open>
  Notions used to state the properties of the densifier: the planar projection of a
  point, the planar distance of two points (the source's \<open>math.hypot\<close> of the
  coordinate differences), and the deduplication test.
\<close>

definition xy :: "vertex \<Rightarrow> real \<times> real" where
  "xy v = (fst v, fst (snd v))"





section \<open>cloud_las.py\<close>

text \<open>
  A point of the cloud is \<open>(x, y, z)\<close>. An opened LAS file is modelled by what the
  source reads from it: the header's \<open>mins\<close> and \<open>maxs\<close>, the point format's id and
  whether it has the dimensions \<open>red\<close>, \<open>green\<close> and \<open>blue\<close>, and the chunks that
  \<open>chunk_iterator\<close> yields, each a list of points with their 16-bit colour fields
  (read by the source only when the point format has them). Decoding failures of the
  container are outside the model: the file is taken as opened.
\<close>

type_synonym xyz = "real \<times> real \<times> real"

type_synonym rgb16 = "16 word \<times> 16 word \<times> 16 word"

record las_file =
  hdr_mins :: xyz
  hdr_maxs :: xyz
  point_format_id :: nat
  has_rgb :: bool
  chunks :: "(xyz \<times> rgb16) list list"









text \<open>A small source and a generator, for concrete runs of the reader.\<close>

definition example_cloud :: las_file where
  "example_cloud =
     \<lparr> hdr_mins = (0, 0, 0), hdr_maxs = (10, 10, 5), point_format_id = 1, has_rgb = False,
       chunks = [[((1, 1, 1), (0, 0, 0)), ((2, 2, 2), (0, 0, 0))],
                 [((3, 3, 3), (0, 0, 0)), ((10, 10, 5), (0, 0, 0))]] \<rparr>"


section \<open>pipeline.py: the merged cloud\<close>

type_synonym rgb8 = "8 word \<times> 8 word \<times> 8 word"

text \<open>
  The \<open>LasData\<close> object handed to the writer: the id of its point format, the
  coordinates assigned to \<open>out.x\<close>, \<open>out.y\<close>, \<open>out.z\<close> and the colours assigned to
  \<open>out.red\<close>, \<open>out.green\<close>, \<open>out.blue\<close>. The progress callbacks are observational and
  left out; writing the file is the external writer's work.
\<close>

record las_data =
  out_point_format :: nat
  out_xyz :: "xyz list"
  out_rgb :: "rgb16 list"

text \<open>
  The loop over the chunks of the whole source: \<open>chunks_xyz\<close> receives every chunk,
  \<open>chunks_rgb\<close> only when the point format has the colour dimensions.
\<close>

definition read_all_chunks :: "las_file \<Rightarrow> xyz list list \<times> rgb16 list list" where
  "read_all_chunks lf =
     foldl (\<lambda>(chunks_xyz, chunks_rgb) points.
              (chunks_xyz @ [map fst points],
               if has_rgb lf then chunks_rgb @ [map snd points] else chunks_rgb))
       ([], []) (chunks lf)"

text \<open>\<open>cad_rgbs_u8.astype(np.uint16) * 257\<close>, per channel.\<close>

definition scale_u8 :: "8 word \<Rightarrow> 16 word" where
  "scale_u8 c = ucast c * 257"

definition scale_rgb :: "rgb8 \<Rightarrow> rgb16" where
  "scale_rgb c = (case c of (r, g, b) \<Rightarrow> (scale_u8 r, scale_u8 g, scale_u8 b))"

definition write_combined_las_with_cad_points ::
  "las_file \<Rightarrow> xyz list \<Rightarrow> rgb8 list \<Rightarrow> error + las_data" where
  "write_combined_las_with_cad_points lf cad_pts_xyz cad_rgbs_u8 =
     (if length cad_rgbs_u8 \<noteq> length cad_pts_xyz
      then Inl (DimensionMismatch ''cad_rgbs_u8 length must match cad_pts_xyz'')
      else
        case read_all_chunks lf of (chunks_xyz, chunks_rgb) \<Rightarrow>
        let base_xyz = concat chunks_xyz;
            base_rgb16 = (if chunks_rgb = [] then None else Some (concat chunks_rgb));
            out_pf_id = (if has_rgb lf then point_format_id lf
                         else if point_format_id lf \<le> 5 then 2 else 7);
            all_xyz = base_xyz @ cad_pts_xyz;
            n_base = length base_xyz;
            n_cad = length cad_pts_xyz;
            rgb16 = replicate (n_base + n_cad) (0, 0, 0);
            rgb16 = (case base_rgb16 of
                       Some base \<Rightarrow>
                         if has_rgb lf \<and> length base = n_base
                         then base @ drop n_base rgb16 else rgb16
                     | None \<Rightarrow> rgb16);
            rgb16 = take n_base rgb16 @ map scale_rgb cad_rgbs_u8
        in Inr \<lparr> out_point_format = out_pf_id, out_xyz = all_xyz, out_rgb = rgb16 \<rparr>)"

text \<open>The 8-bit colour held by a 16-bit colour field: its high byte.\<close>

definition high_byte :: "16 word \<Rightarrow> 8 word" where
  "high_byte w = ucast (drop_bit 8 w)"

definition rgb_high_bytes :: "rgb16 \<Rightarrow> rgb8" where
  "rgb_high_bytes c = (case c of (r, g, b) \<Rightarrow> (high_byte r, high_byte g, high_byte b))"

section \<open>z_assign.py\<close>

subsection \<open>The NumPy operations the source uses\<close>

text \<open>
  \<open>np.int64(i)\<close> of a Python integer raises \<open>OverflowError\<close> when \<open>i\<close> does not fit
  into 64 bits.
\<close>

definition np_int64 :: "int \<Rightarrow> error + 64 word" where
  "np_int64 i = (if - (2 ^ 63) \<le> i \<and> i < 2 ^ 63 then Inr (word_of_int i) else Inl OverflowError)"

text \<open>\<open>(a << 32) ^ (b & 0xFFFFFFFF)\<close> on 64-bit integers.\<close>

definition pack_key :: "64 word \<Rightarrow> 64 word \<Rightarrow> 64 word" where
  "pack_key a b = push_bit 32 a XOR (b AND 0xFFFFFFFF)"

text \<open>
  An array of \<open>int64\<close> keys is a list of their signed values. \<open>np.argsort\<close> gives the
  indices in ascending order of the keys (the order among equal keys is not fixed by
  NumPy; the model takes the stable one). \<open>np.unique\<close> with \<open>return_index\<close> and
  \<open>return_counts\<close> gives the sorted distinct values, the index of the first occurrence
  of each and the number of its occurrences. \<open>np.searchsorted\<close> gives the leftmost
  insertion position in a sorted array.
\<close>

definition argsort :: "int list \<Rightarrow> nat list" where
  "argsort keys = sort_key (\<lambda>i. keys ! i) [0 ..< length keys]"

definition np_unique :: "int list \<Rightarrow> int list \<times> nat list \<times> nat list" where
  "np_unique a =
     (let u = remdups_adj (sort a)
      in (u, map (\<lambda>v. length (takeWhile (\<lambda>x. x \<noteq> v) a)) u, map (count_list a) u))"

definition searchsorted :: "int list \<Rightarrow> int \<Rightarrow> nat" where
  "searchsorted a v = length (takeWhile (\<lambda>x. x < v) a)"

text \<open>
  \<open>np.quantile(z, q)\<close> with the default linear method, for a non-empty \<open>z\<close> and
  \<open>q\<close> in \<open>[0, 1]\<close>: the value at the virtual index \<open>q * (n - 1)\<close> of the sorted
  array, interpolated linearly between the two neighbouring order statistics.
\<close>

definition np_quantile :: "real list \<Rightarrow> real \<Rightarrow> real" where
  "np_quantile z q =
     (let s = sort z;
          h = q * real (length z - 1);
          lo = nat \<lfloor>h\<rfloor>;
          hi = min (lo + 1) (length z - 1);
          g = h - real lo
      in s ! lo + (s ! hi - s ! lo) * g)"

subsection \<open>The grid index\<close>

type_synonym sample = "real \<times> real"


definition cloud_keys :: "(int \<Rightarrow> 32 word) \<Rightarrow> real \<Rightarrow> xyz list \<Rightarrow> int list" where
  "cloud_keys astype_int32 cell cloud =
     map (\<lambda>p. let ix = astype_int32 \<lfloor>fst p / cell\<rfloor>;
                   iy = astype_int32 \<lfloor>fst (snd p) / cell\<rfloor>
               in sint (pack_key (scast ix) (scast iy))) cloud"

record grid_index =
  order :: "nat list"
  uniq :: "int list"
  start_idx :: "nat list"
  counts :: "nat list"

definition build_index :: "int list \<Rightarrow> grid_index" where
  "build_index keys =
     (let order = argsort keys;
          keys_sorted = map (\<lambda>i. keys ! i) order
      in case np_unique keys_sorted of (u, s, c) \<Rightarrow>
           \<lparr> order = order, uniq = u, start_idx = s, counts = c \<rparr>)"

text \<open>The local function \<open>_cell_indices\<close>.\<close>

definition cell_indices :: "grid_index \<Rightarrow> int \<Rightarrow> nat list" where
  "cell_indices idx kkey =
     (let pos = searchsorted (uniq idx) kkey
      in if pos \<ge> length (uniq idx) \<or> uniq idx ! pos \<noteq> kkey then []
         else let s = start_idx idx ! pos; c = counts idx ! pos
              in take c (drop s (order idx)))"

subsection \<open>The query of one sample\<close>

text \<open>
  The key of a neighbouring cell of the query:
  \<open>(np.int64(cx + dx_cell) << 32) ^ (np.int64(cy + dy_cell) & 0xFFFFFFFF)\<close>, where
  \<open>cx\<close> and \<open>cy\<close> are Python integers.
\<close>

definition query_key :: "int \<Rightarrow> int \<Rightarrow> error + int" where
  "query_key a b =
     (case np_int64 a of Inl e \<Rightarrow> Inl e
      | Inr wa \<Rightarrow> (case np_int64 b of Inl e \<Rightarrow> Inl e
                   | Inr wb \<Rightarrow> Inr (sint (pack_key wa wb))))"

text \<open>The two nested loops over \<open>dx_cell\<close> and \<open>dy_cell\<close> in \<open>(-1, 0, 1)\<close>.\<close>

definition cell_offsets :: "(int \<times> int) list" where
  "cell_offsets = [(- 1, - 1), (- 1, 0), (- 1, 1), (0, - 1), (0, 0), (0, 1), (1, - 1), (1, 0), (1, 1)]"

fun gather :: "grid_index \<Rightarrow> int \<Rightarrow> int \<Rightarrow> (int \<times> int) list \<Rightarrow> nat list list
                \<Rightarrow> error + nat list list" where
  "gather idx cx cy [] cand = Inr cand"
| "gather idx cx cy ((dx_cell, dy_cell) # rest) cand =
     (case query_key (cx + dx_cell) (cy + dy_cell) of
        Inl e \<Rightarrow> Inl e
      | Inr kkey \<Rightarrow>
          let ids = cell_indices idx kkey
          in gather idx cx cy rest (if ids \<noteq> [] then cand @ [ids] else cand))"

definition candidates :: "grid_index \<Rightarrow> real \<Rightarrow> sample \<Rightarrow> error + nat list list" where
  "candidates idx cell s =
     (let cx = \<lfloor>fst s / cell\<rfloor>; cy = \<lfloor>snd s / cell\<rfloor>
      in gather idx cx cy cell_offsets [])"

text \<open>\<open>d2 = ddx * ddx + ddy * ddy\<close> for a cloud point and the sample.\<close>

definition dist2 :: "xyz \<Rightarrow> sample \<Rightarrow> real" where
  "dist2 p s = (let ddx = fst p - fst s; ddy = fst (snd p) - snd s in ddx * ddx + ddy * ddy)"

text \<open>
  The indices within the radius, \<open>ids_all[m]\<close> with \<open>m = d2 <= r2\<close>: the answer of the
  neighbour query of the sample (empty when no cell of the neighbourhood is occupied).
\<close>

definition neighbors_within ::
  "grid_index \<Rightarrow> xyz list \<Rightarrow> real \<Rightarrow> sample \<Rightarrow> error + nat list" where
  "neighbors_within idx cloud r s =
     (case candidates idx r s of
        Inl e \<Rightarrow> Inl e
      | Inr cand \<Rightarrow> Inr (filter (\<lambda>i. dist2 (cloud ! i) s \<le> r * r) (concat cand)))"

text \<open>
  The body of the loop over the samples. \<open>np.argpartition\<close> is a parameter
  \<open>argpartition d kth\<close> (its order among equal distances is not fixed by NumPy); an index
  outside the array is an error of the indexing.
\<close>

definition sample_z ::
  "(real list \<Rightarrow> nat \<Rightarrow> nat list) \<Rightarrow> grid_index \<Rightarrow> xyz list \<Rightarrow> real \<Rightarrow> int \<Rightarrow> real \<Rightarrow> real
     \<Rightarrow> real \<Rightarrow> sample \<Rightarrow> error + real" where
  "sample_z argpartition idx cloud r k quantile fallback_z offset s =
     (case candidates idx r s of
        Inl e \<Rightarrow> Inl e
      | Inr cand \<Rightarrow>
          if cand = [] then Inr (fallback_z + offset)
          else
            let ids_all = concat cand;
                r2 = r * r;
                ids_in = filter (\<lambda>i. dist2 (cloud ! i) s \<le> r2) ids_all;
                d2_in = filter (\<lambda>d. d \<le> r2) (map (\<lambda>i. dist2 (cloud ! i) s) ids_all);
                k_eff_max = nat (max 1 k)
            in if ids_in = [] then Inr (fallback_z + offset)
               else if length ids_in > k_eff_max
               then let sel = take k_eff_max (argpartition d2_in (k_eff_max - 1))
                    in if list_all (\<lambda>j. j < length ids_in) sel
                       then Inr (np_quantile (map (\<lambda>j. snd (snd (cloud ! (ids_in ! j)))) sel) quantile
                                 + offset)
                       else Inl IndexError
               else Inr (np_quantile (map (\<lambda>i. snd (snd (cloud ! i))) ids_in) quantile + offset))"

text \<open>The loop over the samples: the first error ends it. The progress callback is
  observational and left out.\<close>

fun assign_loop :: "(sample \<Rightarrow> error + real) \<Rightarrow> sample list \<Rightarrow> real list \<Rightarrow> error + real list" where
  "assign_loop f [] out = Inr out"
| "assign_loop f (s # rest) out =
     (case f s of Inl e \<Rightarrow> Inl e | Inr z \<Rightarrow> assign_loop f rest (out @ [z]))"

definition surface_z_from_neighbors_grid ::
  "(real list \<Rightarrow> nat \<Rightarrow> nat list) \<Rightarrow> (int \<Rightarrow> 32 word) \<Rightarrow> xyz list \<Rightarrow> sample list
     \<Rightarrow> real \<Rightarrow> int \<Rightarrow> real \<Rightarrow> real \<Rightarrow> real \<Rightarrow> error + real list" where
  "surface_z_from_neighbors_grid argpartition astype_int32 cloud_xyz samples_xy
     radius_m k quantile fallback_z offset =
     (if length cloud_xyz \<le> 0 then Inl EmptyCloud
      else let r = radius_m;
               idx = build_index (cloud_keys astype_int32 r cloud_xyz)
           in assign_loop (sample_z argpartition idx cloud_xyz r k quantile fallback_z offset)
                samples_xy [])"

definition surface_z_from_neighbors ::
  "(real list \<Rightarrow> nat \<Rightarrow> nat list) \<Rightarrow> (int \<Rightarrow> 32 word) \<Rightarrow> xyz list \<Rightarrow> sample list
     \<Rightarrow> real \<Rightarrow> int \<Rightarrow> real \<Rightarrow> real \<Rightarrow> real \<Rightarrow> error + real list" where
  "surface_z_from_neighbors argpartition astype_int32 cloud_xyz samples_xy
     radius_m k quantile fallback_z offset =
     (if radius_m \<le> 0 then Inl (InvalidParameter ''radius_m must be > 0'')
      else if k \<le> 0 then Inl (InvalidParameter ''k must be > 0'')
      else if \<not> (0 \<le> quantile \<and> quantile \<le> 1)
      then Inl (InvalidParameter ''quantile must be within [0, 1]'')
      else surface_z_from_neighbors_grid argpartition astype_int32 cloud_xyz samples_xy
             radius_m k quantile fallback_z offset)"

subsection \<open>Notions used to state the properties of the engine\<close>





text \<open>A selection for concrete runs: the indices in ascending order of the distances.\<close>

definition example_argpartition :: "real list \<Rightarrow> nat \<Rightarrow> nat list" where
  "example_argpartition d kth = sort_key (\<lambda>j. d ! j) [0 ..< length d]"



section \<open>Properties of the densifier\<close>



































lemma hypot_axis: "hypot a 0 = \<bar>a\<bar>"
  by (simp add: hypot_def)

lemmas densify_eval = densify_polyline_def emitted_def segment_step_def interp_point_def
  dedup_points_def dedup_step_def dedup_eps_def hypot_axis Let_def eval_nat_numeral

text \<open>
  The end-to-end scenario of the specification: the polyline \<open>[(0,0),(10,0)]\<close> with
  \<open>step = 5\<close> gives the samples \<open>(0,0), (5,0), (10,0)\<close>.
\<close>

lemma densify_scenario:
  "densify_polyline [(0, 0, None), (10, 0, None)] 5
     = Inr [(0, 0, None), (5, 0, None), (10, 0, None)]"
  by (simp add: densify_eval)










section \<open>Properties of the bounded cloud reader\<close>













section \<open>Properties of the merged cloud\<close>

lemma read_all_chunks_fold:
  "foldl (\<lambda>(chunks_xyz, chunks_rgb) points.
              (chunks_xyz @ [map fst points],
               if b then chunks_rgb @ [map snd points] else chunks_rgb))
       (ax, ar) cs
   = (ax @ map (map fst) cs, if b then ar @ map (map snd) cs else ar)"
  by (induction cs arbitrary: ax ar) simp_all

lemma read_all_chunks_eq:
  "read_all_chunks lf =
     (map (map fst) (chunks lf), if has_rgb lf then map (map snd) (chunks lf) else [])"
  by (simp add: read_all_chunks_def read_all_chunks_fold)

lemma high_byte_scale: "high_byte (scale_u8 c) = c"
proof -
  have c: "unat c < 256" using unsigned_less [of c, where 'a = nat] by simp
  have "unat (ucast c :: 16 word) = unat c"
    using c by (simp add: unsigned_ucast_eq take_bit_nat_eq_self)
  then have u: "unat (ucast c * 257 :: 16 word) = unat c * 257"
    using c by (simp add: unat_word_ariths)
  have "unat (drop_bit 8 (ucast c * 257 :: 16 word)) = unat c * 257 div 256"
    by (simp only: unat_drop_bit_eq u) (simp add: drop_bit_eq_div)
  also have "\<dots> = unat c" using c by simp
  finally have "unat (drop_bit 8 (ucast c * 257 :: 16 word)) = unat c" .
  then have "(word_of_nat (unat (drop_bit 8 (ucast c * 257 :: 16 word))) :: 8 word) = word_of_nat (unat c)"
    by simp
  then show ?thesis by (simp add: high_byte_def scale_u8_def)
qed


lemma rgb_high_bytes_scale: "rgb_high_bytes (scale_rgb c) = c"
  by (cases c) (simp add: rgb_high_bytes_def scale_rgb_def high_byte_scale)

lemma concat_map_fst: "concat (map (map f) cs) = map f (concat cs)"
  by (simp add: map_concat)

text \<open>
  C2. When the colour array has as many rows as the appended points, the merged cloud
  holds the \<open>N\<close> points of the source in their order followed by the \<open>M\<close> appended points,
  \<open>N + M\<close> in all, with one colour each. The first \<open>N\<close> colours are black when the source's
  point format has no colour dimensions, and the source's own colours when it has. The
  last \<open>M\<close> colours are the appended points' 8-bit colours scaled to 16 bits (times 257),
  and the high byte of each channel gives the 8-bit colour back.
\<close>

theorem merged_cloud:
  assumes "length cad_rgbs = length cad_pts"
  shows "\<exists>out. write_combined_las_with_cad_points lf cad_pts cad_rgbs = Inr out
    \<and> out_xyz out = map fst (concat (chunks lf)) @ cad_pts
    \<and> length (out_xyz out) = length (concat (chunks lf)) + length cad_pts
    \<and> length (out_rgb out) = length (concat (chunks lf)) + length cad_pts
    \<and> take (length (concat (chunks lf))) (out_rgb out)
        = (if has_rgb lf then map snd (concat (chunks lf))
           else replicate (length (concat (chunks lf))) (0, 0, 0))
    \<and> drop (length (concat (chunks lf))) (out_rgb out) = map scale_rgb cad_rgbs
    \<and> map rgb_high_bytes (drop (length (concat (chunks lf))) (out_rgb out)) = cad_rgbs"
proof -
  let ?N = "length (concat (chunks lf))"
  have hb: "map rgb_high_bytes (map scale_rgb cad_rgbs) = cad_rgbs"
    by (simp add: rgb_high_bytes_scale comp_def)
  have n1: "length (concat (map (map fst) (chunks lf))) = ?N"
    by (simp only: concat_map_fst length_map)
  have n2: "length (concat (map (map snd) (chunks lf))) = ?N"
    by (simp only: concat_map_fst length_map)
  show ?thesis
  proof (cases "has_rgb lf")
    case True
    show ?thesis
    proof (cases "chunks lf = []")
      case e: True
      with True assms hb show ?thesis
        by (simp add: write_combined_las_with_cad_points_def read_all_chunks_eq Let_def)
    next
      case ne: False
      with True assms hb n1 n2 show ?thesis
        by (simp add: write_combined_las_with_cad_points_def read_all_chunks_eq Let_def
            concat_map_fst del: length_concat)
    qed
  next
    case False
    with assms hb n1 show ?thesis
      by (simp add: write_combined_las_with_cad_points_def read_all_chunks_eq Let_def
          concat_map_fst del: length_concat)
  qed
qed

theorem merged_cloud_witness:
  "length [(255, 0, 0), (255, 0, 0), (255, 0, 0) :: rgb8]
     = length [(1, 0, 7), (2, 0, 7), (3, 0, 7) :: xyz]
   \<and> (\<exists>out. write_combined_las_with_cad_points example_cloud
                 [(1, 0, 7), (2, 0, 7), (3, 0, 7)] [(255, 0, 0), (255, 0, 0), (255, 0, 0)]
               = Inr out
          \<and> length (out_xyz out) = length (concat (chunks example_cloud)) + 3
          \<and> length (out_rgb out) = length (concat (chunks example_cloud)) + 3)"
proof -
  have h: "length [(255, 0, 0), (255, 0, 0), (255, 0, 0) :: rgb8]
             = length [(1, 0, 7), (2, 0, 7), (3, 0, 7) :: xyz]" by simp
  from merged_cloud [OF h, of example_cloud] h show ?thesis by auto
qed

text \<open>
  The merged-output scenario of the specification, on a source of 4 points without
  colour: 3 red points are appended; the first 4 colours are black, the last 3 red.
\<close>

lemma scale_rgb_red: "scale_rgb (255, 0, 0) = (65535, 0, 0)"
  by (simp add: scale_rgb_def scale_u8_def)

lemma merged_cloud_scenario:
  "write_combined_las_with_cad_points example_cloud
     [(1, 0, 7), (2, 0, 7), (3, 0, 7)] [(255, 0, 0), (255, 0, 0), (255, 0, 0)]
   = Inr \<lparr> out_point_format = 2,
           out_xyz = [(1, 1, 1), (2, 2, 2), (3, 3, 3), (10, 10, 5),
                      (1, 0, 7), (2, 0, 7), (3, 0, 7)],
           out_rgb = [(0, 0, 0), (0, 0, 0), (0, 0, 0), (0, 0, 0),
                      (65535, 0, 0), (65535, 0, 0), (65535, 0, 0)] \<rparr>"
  by (simp add: write_combined_las_with_cad_points_def read_all_chunks_def example_cloud_def
      scale_rgb_red Let_def replicate_add numeral_eq_Suc)

section \<open>Properties of the grid index and of the Z-assignment engine\<close>
















lemma query_key_error: "query_key a b = Inl e \<Longrightarrow> e = OverflowError"
  by (auto simp: query_key_def np_int64_def split: if_splits)




lemma filter_d2: "filter (\<lambda>d. d \<le> r2) (map f ids) = map f (filter (\<lambda>i. f i \<le> r2) ids)"
  by (induction ids) simp_all

text \<open>The loop body decides on the answer of the neighbour query: the fallback when it
  is empty, the quantile of the (capped) neighbours otherwise.\<close>

lemma sample_z_neighbors_within:
  "sample_z ap idx cloud r k q fb off s =
     (case neighbors_within idx cloud r s of
        Inl e \<Rightarrow> Inl e
      | Inr ids_in \<Rightarrow>
          if ids_in = [] then Inr (fb + off)
          else
            let d2_in = map (\<lambda>i. dist2 (cloud ! i) s) ids_in;
                k_eff_max = nat (max 1 k)
            in if length ids_in > k_eff_max
               then let sel = take k_eff_max (ap d2_in (k_eff_max - 1))
                    in if list_all (\<lambda>j. j < length ids_in) sel
                       then Inr (np_quantile (map (\<lambda>j. snd (snd (cloud ! (ids_in ! j)))) sel) q + off)
                       else Inl IndexError
               else Inr (np_quantile (map (\<lambda>i. snd (snd (cloud ! i))) ids_in) q + off))"
proof (cases "candidates idx r s")
  case (Inl e)
  then show ?thesis by (simp add: sample_z_def neighbors_within_def)
next
  case (Inr cand)
  show ?thesis
  proof (cases "cand = []")
    case True
    with Inr show ?thesis by (simp add: sample_z_def neighbors_within_def)
  next
    case False
    with Inr show ?thesis
      unfolding sample_z_def neighbors_within_def Let_def filter_d2 by simp
  qed
qed




lemma candidates_error: "candidates idx cell s = Inl e \<Longrightarrow> e = OverflowError"
proof -
  have "gather idx cx cy offs cand = Inl e \<Longrightarrow> e = OverflowError" for cx cy offs cand
  proof (induction offs arbitrary: cand)
    case Nil
    then show ?case by simp
  next
    case (Cons off offs)
    obtain dx dy where off: "off = (dx, dy)" by (cases off)
    show ?case
    proof (cases "query_key (cx + dx) (cy + dy)")
      case (Inl e')
      with Cons.prems off query_key_error [OF Inl] show ?thesis by simp
    next
      case (Inr kkey)
      with Cons.prems off Cons.IH show ?thesis by (simp add: Let_def)
    qed
  qed
  then show "candidates idx cell s = Inl e \<Longrightarrow> e = OverflowError"
    by (simp add: candidates_def Let_def)
qed
















text \<open>
  C10. On an empty cloud the engine raises, whatever the samples are (also for an empty
  list of samples); with valid parameters the error is the one of the empty cloud.
\<close>

theorem empty_cloud_raises:
  "(\<exists>e. surface_z_from_neighbors ap cast [] samples r k q fb off = Inl e)
   \<and> (0 < r \<and> 0 < k \<and> 0 \<le> q \<and> q \<le> 1 \<longrightarrow>
        surface_z_from_neighbors ap cast [] samples r k q fb off = Inl EmptyCloud)"
  by (simp add: surface_z_from_neighbors_def surface_z_from_neighbors_grid_def)

theorem empty_cloud_raises_witness:
  "(0 :: real) < 1 \<and> (0 :: int) < 1 \<and> (0 :: real) \<le> 1 / 2 \<and> (1 / 2 :: real) \<le> 1
   \<and> surface_z_from_neighbors example_argpartition word_of_int [] [] 1 1 (1 / 2) 7 0
       = Inl EmptyCloud"
proof -
  have h: "(0 :: real) < 1 \<and> (0 :: int) < 1 \<and> (0 :: real) \<le> 1 / 2 \<and> (1 / 2 :: real) \<le> 1"
    by simp
  from empty_cloud_raises [of example_argpartition word_of_int "[]" 1 1 "1 / 2" 7 0] h
  show ?thesis by blast
qed

text \<open>
  The end-to-end scenario of the specification: the samples \<open>(0,0), (5,0), (10,0)\<close>, a
  cloud of 4 points, a radius that includes all of them, \<open>k = 1\<close> and \<open>quantile = 0\<close>;
  and a run with \<open>k = 3\<close>, the median, an offset and a sample without neighbours.
\<close>

lemma engine_scenario:
  "surface_z_from_neighbors example_argpartition word_of_int
     [(0, 0, 1), (5, 0, 2), (10, 0, 3), (5, 0, 100)] [(0, 0), (5, 0), (10, 0)] 20 1 0 7 0
   = Inr [1, 2, 3]"
  by code_simp

lemma engine_scenario_median:
  "surface_z_from_neighbors example_argpartition word_of_int
     [(0, 0, 1), (5, 0, 2), (10, 0, 3), (5, 0, 100)] [(0, 0), (5, 0), (10, 0), (- 30, 55)]
     20 3 (1 / 2) 7 (1 / 4)
   = Inr [9 / 4, 9 / 4, 13 / 4, 29 / 4]"
  by code_simp


end
